theory Spec2Isabelle
  imports Main "HOL-Library.Word"
begin

section \<open>C values crossing the boundary\<close>

text \<open>
  The bridge functions of \<^verbatim>\<open>CKalliope.c\<close> and \<^verbatim>\<open>CLinusBridge.c\<close> compute nothing
  themselves: each one hands its arguments to functions of GMP, MPFR or the C library and
  looks at what comes back. The values they handle are modelled as follows.
  \<^item> \<^verbatim>\<open>int\<close> is a 32-bit word, compared as two's complement;
  \<^item> \<^verbatim>\<open>size_t\<close> and \<^verbatim>\<open>mpfr_prec_t\<close> (\<^verbatim>\<open>typedef long mpfr_prec_t\<close>) are 64-bit words;
  \<^item> a \<^verbatim>\<open>void *\<close>, \<^verbatim>\<open>char *\<close>, \<^verbatim>\<open>char **\<close> or \<^verbatim>\<open>FILE *\<close> is an address, with 0 the null
    pointer; the casts \<^verbatim>\<open>(FILE *)stream\<close>, \<^verbatim>\<open>(mpfr_ptr)rop\<close>, \<^verbatim>\<open>(mpfr_srcptr)op\<close> keep the
    address;
  \<^item> a \<^verbatim>\<open>const char *\<close> that is read as text is the string it points to, or \<open>None\<close> for
    the null pointer;
  \<^item> a \<^verbatim>\<open>va_list\<close> is the list of the trailing arguments it captured.
\<close>

type_synonym cint = "32 word"
type_synonym csize = "64 word"
type_synonym mpfr_prec_t = "64 word"
type_synonym ptr = nat
type_synonym cstring = "string option"

abbreviation NULL :: ptr where
  "NULL \<equiv> 0"

datatype carg = IntArg int | PtrArg ptr | StrArg string

type_synonym va_list = "carg list"

definition STDIN_FILENO :: cint where
  "STDIN_FILENO = 0"

section \<open>The external functions\<close>

text \<open>
  Every external function changes a world \<open>'w\<close> (streams, buffers, descriptors, the
  memory behind the handles) that the bridge never inspects, so the world is a type
  parameter and each external symbol is a field of a record: the functions the linker
  resolves from GMP (\<^verbatim>\<open>__gmp_vprintf\<close> and its siblings, declared \<^verbatim>\<open>extern\<close> in
  \<^verbatim>\<open>CKalliopeBridge.h\<close>), from MPFR, and from the C library.
\<close>

record 'w gmp =
  gmp_vprintf :: "cstring \<Rightarrow> va_list \<Rightarrow> 'w \<Rightarrow> cint \<times> 'w"
  gmp_vfprintf :: "ptr \<Rightarrow> cstring \<Rightarrow> va_list \<Rightarrow> 'w \<Rightarrow> cint \<times> 'w"
  gmp_vsprintf :: "ptr \<Rightarrow> cstring \<Rightarrow> va_list \<Rightarrow> 'w \<Rightarrow> cint \<times> 'w"
  gmp_vsnprintf :: "ptr \<Rightarrow> csize \<Rightarrow> cstring \<Rightarrow> va_list \<Rightarrow> 'w \<Rightarrow> cint \<times> 'w"
  gmp_vasprintf :: "ptr \<Rightarrow> cstring \<Rightarrow> va_list \<Rightarrow> 'w \<Rightarrow> cint \<times> 'w"
  gmp_vscanf :: "cstring \<Rightarrow> va_list \<Rightarrow> 'w \<Rightarrow> cint \<times> 'w"
  gmp_vfscanf :: "ptr \<Rightarrow> cstring \<Rightarrow> va_list \<Rightarrow> 'w \<Rightarrow> cint \<times> 'w"
  gmp_vsscanf :: "cstring \<Rightarrow> cstring \<Rightarrow> va_list \<Rightarrow> 'w \<Rightarrow> cint \<times> 'w"

record 'w mpfr =
  mpfr_rint_floor :: "ptr \<Rightarrow> ptr \<Rightarrow> cint \<Rightarrow> 'w \<Rightarrow> cint \<times> 'w"
  mpfr_rint_ceil :: "ptr \<Rightarrow> ptr \<Rightarrow> cint \<Rightarrow> 'w \<Rightarrow> cint \<times> 'w"
  mpfr_rint_trunc :: "ptr \<Rightarrow> ptr \<Rightarrow> cint \<Rightarrow> 'w \<Rightarrow> cint \<times> 'w"
  mpfr_vprintf :: "cstring \<Rightarrow> va_list \<Rightarrow> 'w \<Rightarrow> cint \<times> 'w"
  mpfr_vfprintf :: "ptr \<Rightarrow> cstring \<Rightarrow> va_list \<Rightarrow> 'w \<Rightarrow> cint \<times> 'w"

text \<open>
  \<open>stdin\<close> is what the expression \<^verbatim>\<open>stdin\<close> evaluates to in a given world: the code
  reads it anew at every use, and compares it with the result of \<^verbatim>\<open>freopen\<close> after the
  call.
\<close>

record 'w libc =
  stdin :: "'w \<Rightarrow> ptr"
  freopen :: "cstring \<Rightarrow> cstring \<Rightarrow> ptr \<Rightarrow> 'w \<Rightarrow> ptr \<times> 'w"
  clearerr :: "ptr \<Rightarrow> 'w \<Rightarrow> 'w"
  rewind :: "ptr \<Rightarrow> 'w \<Rightarrow> 'w"
  dup2 :: "cint \<Rightarrow> cint \<Rightarrow> 'w \<Rightarrow> cint \<times> 'w"

subsection \<open>A run and the calls it makes\<close>

datatype call =
    GMP_vprintf cstring va_list
  | GMP_vfprintf ptr cstring va_list
  | GMP_vsprintf ptr cstring va_list
  | GMP_vsnprintf ptr csize cstring va_list
  | GMP_vasprintf ptr cstring va_list
  | GMP_vscanf cstring va_list
  | GMP_vfscanf ptr cstring va_list
  | GMP_vsscanf cstring cstring va_list
  | MPFR_rint_floor ptr ptr cint
  | MPFR_rint_ceil ptr ptr cint
  | MPFR_rint_trunc ptr ptr cint
  | MPFR_vprintf cstring va_list
  | MPFR_vfprintf ptr cstring va_list
  | Freopen cstring cstring ptr
  | Clearerr ptr
  | Rewind ptr
  | Dup2 cint cint

text \<open>
  The state of a run is the world together with the log of the external calls made so
  far, oldest first. A call that returns a value runs the external function on the
  world and appends its own entry to the log; so does a call of a \<^verbatim>\<open>void\<close> function.
\<close>

record 'w sys =
  world :: 'w
  calls :: "call list"

definition extern :: "call \<Rightarrow> ('w \<Rightarrow> 'r \<times> 'w) \<Rightarrow> 'w sys \<Rightarrow> 'r \<times> 'w sys" where
  "extern c f s =
     (case f (world s) of (r, w') \<Rightarrow> (r, \<lparr>world = w', calls = calls s @ [c]\<rparr>))"

definition extern_void :: "call \<Rightarrow> ('w \<Rightarrow> 'w) \<Rightarrow> 'w sys \<Rightarrow> 'w sys" where
  "extern_void c f s = \<lparr>world = f (world s), calls = calls s @ [c]\<rparr>"

section \<open>CKalliope.c: the GMP forwarding functions\<close>

definition ckalliope_vprintf :: "'w gmp \<Rightarrow> cstring \<Rightarrow> va_list \<Rightarrow> 'w sys \<Rightarrow> cint \<times> 'w sys" where
  "ckalliope_vprintf G fmt ap = extern (GMP_vprintf fmt ap) (gmp_vprintf G fmt ap)"

definition ckalliope_vfprintf ::
  "'w gmp \<Rightarrow> ptr \<Rightarrow> cstring \<Rightarrow> va_list \<Rightarrow> 'w sys \<Rightarrow> cint \<times> 'w sys" where
  "ckalliope_vfprintf G stream fmt ap =
     extern (GMP_vfprintf stream fmt ap) (gmp_vfprintf G stream fmt ap)"

definition ckalliope_vsprintf ::
  "'w gmp \<Rightarrow> ptr \<Rightarrow> cstring \<Rightarrow> va_list \<Rightarrow> 'w sys \<Rightarrow> cint \<times> 'w sys" where
  "ckalliope_vsprintf G buf fmt ap =
     extern (GMP_vsprintf buf fmt ap) (gmp_vsprintf G buf fmt ap)"

definition ckalliope_vsnprintf ::
  "'w gmp \<Rightarrow> ptr \<Rightarrow> csize \<Rightarrow> cstring \<Rightarrow> va_list \<Rightarrow> 'w sys \<Rightarrow> cint \<times> 'w sys" where
  "ckalliope_vsnprintf G buf sz fmt ap =
     extern (GMP_vsnprintf buf sz fmt ap) (gmp_vsnprintf G buf sz fmt ap)"

definition ckalliope_vasprintf ::
  "'w gmp \<Rightarrow> ptr \<Rightarrow> cstring \<Rightarrow> va_list \<Rightarrow> 'w sys \<Rightarrow> cint \<times> 'w sys" where
  "ckalliope_vasprintf G pp fmt ap =
     extern (GMP_vasprintf pp fmt ap) (gmp_vasprintf G pp fmt ap)"

definition ckalliope_vscanf :: "'w gmp \<Rightarrow> cstring \<Rightarrow> va_list \<Rightarrow> 'w sys \<Rightarrow> cint \<times> 'w sys" where
  "ckalliope_vscanf G fmt ap = extern (GMP_vscanf fmt ap) (gmp_vscanf G fmt ap)"

definition ckalliope_vfscanf ::
  "'w gmp \<Rightarrow> ptr \<Rightarrow> cstring \<Rightarrow> va_list \<Rightarrow> 'w sys \<Rightarrow> cint \<times> 'w sys" where
  "ckalliope_vfscanf G stream fmt ap =
     extern (GMP_vfscanf stream fmt ap) (gmp_vfscanf G stream fmt ap)"

definition ckalliope_vsscanf ::
  "'w gmp \<Rightarrow> cstring \<Rightarrow> cstring \<Rightarrow> va_list \<Rightarrow> 'w sys \<Rightarrow> cint \<times> 'w sys" where
  "ckalliope_vsscanf G str fmt ap =
     extern (GMP_vsscanf str fmt ap) (gmp_vsscanf G str fmt ap)"

section \<open>CKalliope.c: redirecting and restoring standard input\<close>

text \<open>
  \<^verbatim>\<open>ckalliope_redirect_stdin_from_file\<close>: one \<^verbatim>\<open>freopen(filepath, "r", stdin)\<close>; a null
  result and a result other than \<^verbatim>\<open>stdin\<close> both return \<open>-1\<close> at once; otherwise
  \<^verbatim>\<open>clearerr(stdin)\<close>, \<^verbatim>\<open>rewind(stdin)\<close> and 0.
\<close>

definition ckalliope_redirect_stdin_from_file ::
  "'w libc \<Rightarrow> cstring \<Rightarrow> 'w sys \<Rightarrow> cint \<times> 'w sys" where
  "ckalliope_redirect_stdin_from_file L filepath s0 =
     (let strm = stdin L (world s0);
          (result, s1) = extern (Freopen filepath (Some ''r'') strm)
                                (freopen L filepath (Some ''r'') strm) s0
      in if result = NULL then (- 1, s1)
         else if result \<noteq> stdin L (world s1) then (- 1, s1)
         else
           let s2 = extern_void (Clearerr (stdin L (world s1)))
                                (clearerr L (stdin L (world s1))) s1;
               s3 = extern_void (Rewind (stdin L (world s2)))
                                (rewind L (stdin L (world s2))) s2
           in (0, s3))"

text \<open>
  \<^verbatim>\<open>ckalliope_restore_stdin\<close>: \<^verbatim>\<open>dup2(original_fd, STDIN_FILENO)\<close>, and \<open>-1\<close> when its
  result is negative; then \<^verbatim>\<open>freopen(NULL, "r", stdin)\<close> with the same two checks as
  above; then \<^verbatim>\<open>clearerr(stdin)\<close> and 0. There is no \<^verbatim>\<open>rewind\<close> here.
\<close>

definition ckalliope_restore_stdin :: "'w libc \<Rightarrow> cint \<Rightarrow> 'w sys \<Rightarrow> cint \<times> 'w sys" where
  "ckalliope_restore_stdin L original_fd s0 =
     (let (d, s1) = extern (Dup2 original_fd STDIN_FILENO)
                           (dup2 L original_fd STDIN_FILENO) s0
      in if d <s 0 then (- 1, s1)
         else
           let strm = stdin L (world s1);
               (result, s2) = extern (Freopen None (Some ''r'') strm)
                                     (freopen L None (Some ''r'') strm) s1
           in if result = NULL then (- 1, s2)
              else if result \<noteq> stdin L (world s2) then (- 1, s2)
              else
                let s3 = extern_void (Clearerr (stdin L (world s2)))
                                     (clearerr L (stdin L (world s2))) s2
                in (0, s3))"

section \<open>CLinusBridge.c\<close>

definition clinus_mpfr_rint_floor ::
  "'w mpfr \<Rightarrow> ptr \<Rightarrow> ptr \<Rightarrow> cint \<Rightarrow> 'w sys \<Rightarrow> cint \<times> 'w sys" where
  "clinus_mpfr_rint_floor M rop op rnd =
     extern (MPFR_rint_floor rop op rnd) (mpfr_rint_floor M rop op rnd)"

definition clinus_mpfr_rint_ceil ::
  "'w mpfr \<Rightarrow> ptr \<Rightarrow> ptr \<Rightarrow> cint \<Rightarrow> 'w sys \<Rightarrow> cint \<times> 'w sys" where
  "clinus_mpfr_rint_ceil M rop op rnd =
     extern (MPFR_rint_ceil rop op rnd) (mpfr_rint_ceil M rop op rnd)"

definition clinus_mpfr_rint_trunc ::
  "'w mpfr \<Rightarrow> ptr \<Rightarrow> ptr \<Rightarrow> cint \<Rightarrow> 'w sys \<Rightarrow> cint \<times> 'w sys" where
  "clinus_mpfr_rint_trunc M rop op rnd =
     extern (MPFR_rint_trunc rop op rnd) (mpfr_rint_trunc M rop op rnd)"

definition clinus_mpfr_vprintf :: "'w mpfr \<Rightarrow> cstring \<Rightarrow> va_list \<Rightarrow> 'w sys \<Rightarrow> cint \<times> 'w sys" where
  "clinus_mpfr_vprintf M fmt ap = extern (MPFR_vprintf fmt ap) (mpfr_vprintf M fmt ap)"

definition clinus_mpfr_vfprintf ::
  "'w mpfr \<Rightarrow> ptr \<Rightarrow> cstring \<Rightarrow> va_list \<Rightarrow> 'w sys \<Rightarrow> cint \<times> 'w sys" where
  "clinus_mpfr_vfprintf M stream fmt ap =
     extern (MPFR_vfprintf stream fmt ap) (mpfr_vfprintf M stream fmt ap)"

text \<open>
  Modelled from the spec: the macro \<^verbatim>\<open>MPFR_PREC_MIN\<close> is expanded from the header
  \<^verbatim>\<open>mpfr.h\<close> of the external library, which is not among the sources. The spec describes
  the two precision bounds as immutable integers fixed when the library is built, with
  minimum < maximum. The value taken here is the one of the MPFR 4 header: 1.
\<close>

definition MPFR_PREC_MIN :: mpfr_prec_t where
  "MPFR_PREC_MIN = 1"

text \<open>
  Modelled from the spec: the macro \<^verbatim>\<open>MPFR_PREC_MAX\<close>, from the same absent header. The
  value taken here is the one of the MPFR 4 header where \<^verbatim>\<open>long\<close> has 64 bits:
  \<^verbatim>\<open>(mpfr_prec_t) ((((mpfr_uprec_t) -1) >> 1) - 256)\<close>, that is \<open>2 ^ 63 - 257\<close>.
\<close>

definition MPFR_PREC_MAX :: mpfr_prec_t where
  "MPFR_PREC_MAX = drop_bit 1 (- 1) - 256"

text \<open>
  \<^verbatim>\<open>clinus_get_prec_min\<close> and \<^verbatim>\<open>clinus_get_prec_max\<close> return the macro and call nothing.
\<close>

definition clinus_get_prec_min :: "'w sys \<Rightarrow> mpfr_prec_t \<times> 'w sys" where
  "clinus_get_prec_min s = (MPFR_PREC_MIN, s)"

definition clinus_get_prec_max :: "'w sys \<Rightarrow> mpfr_prec_t \<times> 'w sys" where
  "clinus_get_prec_max s = (MPFR_PREC_MAX, s)"

section \<open>A reference platform\<close>

text \<open>
  What \<^verbatim>\<open>freopen\<close>, \<^verbatim>\<open>clearerr\<close>, \<^verbatim>\<open>rewind\<close> and \<^verbatim>\<open>dup2\<close> do is fixed by ISO C and
  POSIX, not by this repository. The platform below follows those documents for input
  streams over regular files, and serves wherever a statement speaks of what standard
  input is bound to:
  \<^item> a file system of readable regular files, by path;
  \<^item> a descriptor table, giving for each open descriptor the file contents and the read
    offset (nothing here reads one file through two descriptors, so the sharing of the
    offset between duplicated descriptors is not represented);
  \<^item> the open input streams, by the address of their \<^verbatim>\<open>FILE\<close> object: the descriptor
    underneath and the end-of-file and error indicators; a closed stream is absent;
  \<^item> the value of \<^verbatim>\<open>stdin\<close>;
  \<^item> for each output stream, the bytes written to it that are still in its buffer;
  \<^item> whether the implementation lets \<^verbatim>\<open>freopen\<close> reopen a stream without a path, which
    ISO C leaves to the implementation.
\<close>

type_synonym byte = "8 word"

record open_file =
  of_data :: "byte list"
  of_pos :: nat

record file_stream =
  fs_fd :: cint
  fs_eof :: bool
  fs_err :: bool

record platform =
  files :: "string \<Rightarrow> byte list option"
  fdtab :: "cint \<Rightarrow> open_file option"
  streams :: "ptr \<Rightarrow> file_stream option"
  stdin_var :: ptr
  pending_out :: "ptr \<Rightarrow> byte list"
  null_reopen :: bool

text \<open>The open stream at an address; there is none at the null pointer.\<close>

definition stream_at :: "platform \<Rightarrow> ptr \<Rightarrow> file_stream option" where
  "stream_at w strm = (if strm = NULL then None else streams w strm)"

text \<open>
  \<^verbatim>\<open>freopen\<close> (ISO C 7.21.5.4, POSIX): the file associated with the stream is closed
  first, whether or not the open succeeds afterwards. With a path, the file is then
  opened and the stream bound to it with both indicators clear, keeping its descriptor
  number; if the file cannot be opened the result is null and the stream stays closed.
  With a null path the file under the stream is opened again in the new mode; which
  such changes are permitted, if any, is implementation-defined. Where the platform
  permits it and the descriptor of the stream is open, the stream stays on its
  descriptor, reading starts again at offset 0 and both indicators are clear (the GNU
  library opens the file anew through its descriptor, the BSD library seeks to the
  start); otherwise the result is null and the stream and its descriptor are closed.
  Only the mode \<^verbatim>\<open>"r"\<close> is accepted. On a stream that is not open the behaviour is
  undefined in C and implementations differ; the platform then answers null and
  changes nothing, and no statement below rests on that answer.
\<close>

definition p_freopen :: "cstring \<Rightarrow> cstring \<Rightarrow> ptr \<Rightarrow> platform \<Rightarrow> ptr \<times> platform" where
  "p_freopen path mode strm w =
     (case stream_at w strm of
        None \<Rightarrow> (NULL, w)
      | Some st \<Rightarrow>
          (case path of
             Some p \<Rightarrow>
               (case (if mode = Some ''r'' then files w p else None) of
                  Some data \<Rightarrow>
                    (strm,
                     w\<lparr>fdtab := (fdtab w)(fs_fd st := Some \<lparr>of_data = data, of_pos = 0\<rparr>),
                       streams := (streams w)
                         (strm := Some \<lparr>fs_fd = fs_fd st, fs_eof = False, fs_err = False\<rparr>)\<rparr>)
                | None \<Rightarrow>
                    (NULL,
                     w\<lparr>fdtab := (fdtab w)(fs_fd st := None),
                       streams := (streams w)(strm := None)\<rparr>))
           | None \<Rightarrow>
               (case (if mode = Some ''r'' \<and> null_reopen w then fdtab w (fs_fd st) else None) of
                  Some f \<Rightarrow>
                    (strm,
                     w\<lparr>fdtab := (fdtab w)(fs_fd st := Some (f\<lparr>of_pos := 0\<rparr>)),
                       streams := (streams w)
                         (strm := Some (st\<lparr>fs_eof := False, fs_err := False\<rparr>))\<rparr>)
                | None \<Rightarrow>
                    (NULL,
                     w\<lparr>fdtab := (fdtab w)(fs_fd st := None),
                       streams := (streams w)(strm := None)\<rparr>))))"

text \<open>\<^verbatim>\<open>clearerr\<close> clears the end-of-file and error indicators of the stream.\<close>

definition p_clearerr :: "ptr \<Rightarrow> platform \<Rightarrow> platform" where
  "p_clearerr strm w =
     (case stream_at w strm of
        None \<Rightarrow> w
      | Some st \<Rightarrow>
          w\<lparr>streams := (streams w)(strm := Some (st\<lparr>fs_eof := False, fs_err := False\<rparr>))\<rparr>)"

text \<open>
  \<^verbatim>\<open>rewind\<close> is \<^verbatim>\<open>(void) fseek(stream, 0L, SEEK_SET)\<close> followed by clearing the error
  indicator; a successful \<^verbatim>\<open>fseek\<close> clears the end-of-file indicator.
\<close>

definition p_rewind :: "ptr \<Rightarrow> platform \<Rightarrow> platform" where
  "p_rewind strm w =
     (case stream_at w strm of
        None \<Rightarrow> w
      | Some st \<Rightarrow>
          (case fdtab w (fs_fd st) of
             None \<Rightarrow> w\<lparr>streams := (streams w)(strm := Some (st\<lparr>fs_err := False\<rparr>))\<rparr>
           | Some f \<Rightarrow>
               w\<lparr>fdtab := (fdtab w)(fs_fd st := Some (f\<lparr>of_pos := 0\<rparr>)),
                 streams := (streams w)
                   (strm := Some (st\<lparr>fs_eof := False, fs_err := False\<rparr>))\<rparr>))"

text \<open>
  \<^verbatim>\<open>dup2\<close>: a descriptor that is negative or not open gives \<open>-1\<close> and leaves the target
  alone; equal descriptors give the descriptor and change nothing; otherwise the target
  is made to denote what the source denotes.
\<close>

definition p_dup2 :: "cint \<Rightarrow> cint \<Rightarrow> platform \<Rightarrow> cint \<times> platform" where
  "p_dup2 oldfd newfd w =
     (if oldfd <s 0 \<or> newfd <s 0 \<or> fdtab w oldfd = None then (- 1, w)
      else if oldfd = newfd then (newfd, w)
      else (newfd, w\<lparr>fdtab := (fdtab w)(newfd := fdtab w oldfd)\<rparr>))"

definition posix :: "platform libc" where
  "posix = \<lparr>stdin = stdin_var, freopen = p_freopen, clearerr = p_clearerr,
            rewind = p_rewind, dup2 = p_dup2\<rparr>"

text \<open>
  Reading one byte from a stream, as \<^verbatim>\<open>fgetc\<close> does: the byte at the offset, as an
  \<^verbatim>\<open>unsigned char\<close> converted to \<^verbatim>\<open>int\<close>, or \<^verbatim>\<open>EOF\<close> with the end-of-file indicator set.
\<close>

definition EOF :: cint where
  "EOF = - 1"

definition p_fgetc :: "ptr \<Rightarrow> platform \<Rightarrow> cint \<times> platform" where
  "p_fgetc strm w =
     (case stream_at w strm of
        None \<Rightarrow> (EOF, w)
      | Some st \<Rightarrow>
          (case fdtab w (fs_fd st) of
             None \<Rightarrow> (EOF, w\<lparr>streams := (streams w)(strm := Some (st\<lparr>fs_err := True\<rparr>))\<rparr>)
           | Some f \<Rightarrow>
               (if of_pos f < length (of_data f)
                then (ucast (of_data f ! of_pos f),
                      w\<lparr>fdtab := (fdtab w)
                          (fs_fd st := Some (f\<lparr>of_pos := Suc (of_pos f)\<rparr>))\<rparr>)
                else (EOF,
                      w\<lparr>streams := (streams w)(strm := Some (st\<lparr>fs_eof := True\<rparr>))\<rparr>))))"

text \<open>What standard input is bound to: the open file under the stream \<^verbatim>\<open>stdin\<close>.\<close>

definition stdin_binding :: "platform \<Rightarrow> open_file option" where
  "stdin_binding w =
     (case stream_at w (stdin_var w) of
        None \<Rightarrow> None
      | Some st \<Rightarrow> fdtab w (fs_fd st))"

text \<open>
  A process started on a terminal whose pending input is the line \<^verbatim>\<open>hi\<close>: standard input
  is the stream at address 4096 on descriptor 0, descriptor 3 is a saved duplicate of it,
  the file \<^verbatim>\<open>in.txt\<close> holds \<^verbatim>\<open>3.14159\<close> and a newline, the stream at address 8192 is an
  output stream with two bytes still buffered, and a stream can be reopened without a
  path.
\<close>

definition tty :: open_file where
  "tty = \<lparr>of_data = [104, 105, 10], of_pos = 0\<rparr>"

definition in_txt :: "byte list" where
  "in_txt = [51, 46, 49, 52, 49, 53, 57, 10]"

definition w0 :: platform where
  "w0 = \<lparr>files = Map.empty(''in.txt'' \<mapsto> in_txt),
         fdtab = Map.empty(0 \<mapsto> tty, 3 \<mapsto> tty),
         streams = Map.empty(4096 \<mapsto> \<lparr>fs_fd = 0, fs_eof = True, fs_err = False\<rparr>),
         stdin_var = 4096,
         pending_out = (\<lambda>_. [])(8192 := [111, 107]),
         null_reopen = True\<rparr>"

definition s0 :: "platform sys" where
  "s0 = \<lparr>world = w0, calls = []\<rparr>"

text \<open>
  A platform on which \<^verbatim>\<open>stdin\<close> is an assignable variable and is assigned while
  \<^verbatim>\<open>freopen\<close> runs, as a second thread could do: afterwards the name \<^verbatim>\<open>stdin\<close> denotes
  the address 12288, whatever stream \<^verbatim>\<open>freopen\<close> was given and returns.
\<close>

definition racing :: "platform libc" where
  "racing = posix\<lparr>freopen := \<lambda>path mode strm w.
     (case p_freopen path mode strm w of (r, w') \<Rightarrow> (r, w'\<lparr>stdin_var := 12288\<rparr>))\<rparr>"

section \<open>What the claims speak of\<close>

text \<open>
  A bridge function \<open>f\<close> forwards to the external function \<open>g\<close>, logged as \<open>c\<close>, when in
  every state its result is the result of \<open>g\<close>, the world afterwards is the one \<open>g\<close>
  left, and the log has grown by the single entry \<open>c\<close>.
\<close>

definition single_call :: "('w sys \<Rightarrow> 'r \<times> 'w sys) \<Rightarrow> call \<Rightarrow> ('w \<Rightarrow> 'r \<times> 'w) \<Rightarrow> bool" where
  "single_call f c g \<longleftrightarrow>
     (\<forall>s. fst (f s) = fst (g (world s)) \<and>
          world (snd (f s)) = snd (g (world s)) \<and>
          calls (snd (f s)) = calls s @ [c])"

text \<open>
  The library keeps an observation \<open>out\<close> of the world (the state of the output streams)
  when none of the four functions, applied to the stream \<^verbatim>\<open>stdin\<close> or duplicating onto
  \<^verbatim>\<open>STDIN_FILENO\<close>, changes it.
\<close>

definition output_untouched :: "'w libc \<Rightarrow> ('w \<Rightarrow> 'o) \<Rightarrow> bool" where
  "output_untouched L out \<longleftrightarrow>
     (\<forall>path mode w. out (snd (freopen L path mode (stdin L w) w)) = out w) \<and>
     (\<forall>w. out (clearerr L (stdin L w) w) = out w) \<and>
     (\<forall>w. out (rewind L (stdin L w) w) = out w) \<and>
     (\<forall>fd w. out (snd (dup2 L fd STDIN_FILENO w)) = out w)"

text \<open>
  The calls that work on the input side: reopening a stream for reading, clearing its
  indicators, rewinding it, and duplicating a descriptor onto \<^verbatim>\<open>STDIN_FILENO\<close>.
\<close>

fun input_side :: "call \<Rightarrow> bool" where
  "input_side (Freopen path mode strm) = (mode = Some ''r'')"
| "input_side (Clearerr strm) = True"
| "input_side (Rewind strm) = True"
| "input_side (Dup2 oldfd newfd) = (newfd = STDIN_FILENO)"
| "input_side _ = False"

section \<open>Unfolding the bridge functions\<close>

lemma extern_eq:
  "extern c f s = (fst (f (world s)), \<lparr>world = snd (f (world s)), calls = calls s @ [c]\<rparr>)"
  by (simp add: extern_def split: prod.splits)

lemma single_call_extern: "single_call (extern c g) c g"
  by (simp add: single_call_def extern_eq)

lemma redirect_eq:
  assumes "freopen L filepath (Some ''r'') (stdin L (world s)) (world s) = (r, w1)"
  shows "ckalliope_redirect_stdin_from_file L filepath s =
     (if r = NULL \<or> r \<noteq> stdin L w1
      then (- 1, \<lparr>world = w1,
                  calls = calls s @ [Freopen filepath (Some ''r'') (stdin L (world s))]\<rparr>)
      else (0, \<lparr>world = rewind L (stdin L (clearerr L (stdin L w1) w1))
                          (clearerr L (stdin L w1) w1),
                calls = calls s @ [Freopen filepath (Some ''r'') (stdin L (world s)),
                                   Clearerr (stdin L w1),
                                   Rewind (stdin L (clearerr L (stdin L w1) w1))]\<rparr>))"
  using assms
  by (simp add: ckalliope_redirect_stdin_from_file_def extern_eq extern_void_def Let_def)

lemma restore_eq:
  assumes "dup2 L fd STDIN_FILENO (world s) = (d, w1)"
    and "freopen L None (Some ''r'') (stdin L w1) w1 = (r, w2)"
  shows "ckalliope_restore_stdin L fd s =
     (if d <s 0
      then (- 1, \<lparr>world = w1, calls = calls s @ [Dup2 fd STDIN_FILENO]\<rparr>)
      else if r = NULL \<or> r \<noteq> stdin L w2
      then (- 1, \<lparr>world = w2,
                  calls = calls s @ [Dup2 fd STDIN_FILENO,
                                     Freopen None (Some ''r'') (stdin L w1)]\<rparr>)
      else (0, \<lparr>world = clearerr L (stdin L w2) w2,
                calls = calls s @ [Dup2 fd STDIN_FILENO,
                                   Freopen None (Some ''r'') (stdin L w1),
                                   Clearerr (stdin L w2)]\<rparr>))"
  using assms
  by (simp add: ckalliope_restore_stdin_def extern_eq extern_void_def Let_def)

lemma posix_simps:
  "stdin posix = stdin_var" "freopen posix = p_freopen" "clearerr posix = p_clearerr"
  "rewind posix = p_rewind" "dup2 posix = p_dup2"
  by (simp_all add: posix_def)

lemma racing_simps:
  "stdin racing = stdin_var" "clearerr racing = p_clearerr" "dup2 racing = p_dup2"
  "freopen racing path mode strm w =
     (fst (p_freopen path mode strm w), (snd (p_freopen path mode strm w))\<lparr>stdin_var := 12288\<rparr>)"
  by (simp_all add: racing_def posix_def split: prod.splits)

lemma prec_min_lt_max: "MPFR_PREC_MIN <s MPFR_PREC_MAX"
  by code_simp

lemma output_untouched_posix: "output_untouched posix pending_out"
  by (simp add: output_untouched_def posix_simps p_freopen_def p_clearerr_def p_rewind_def
      p_dup2_def split: option.splits)

section \<open>The forwarding functions\<close>

text \<open>
  Claim C1. For every format string, argument list and target, each of the ten
  \<^verbatim>\<open>va_list\<close> forwarding functions makes exactly one call, to its own external function
  with the arguments it was given, returns what that call returned and leaves the world
  as that call left it.
\<close>

theorem forwarding_single_call:
  "single_call (ckalliope_vprintf G fmt ap) (GMP_vprintf fmt ap) (gmp_vprintf G fmt ap) \<and>
   single_call (ckalliope_vfprintf G stream fmt ap) (GMP_vfprintf stream fmt ap)
     (gmp_vfprintf G stream fmt ap) \<and>
   single_call (ckalliope_vsprintf G buf fmt ap) (GMP_vsprintf buf fmt ap)
     (gmp_vsprintf G buf fmt ap) \<and>
   single_call (ckalliope_vsnprintf G buf sz fmt ap) (GMP_vsnprintf buf sz fmt ap)
     (gmp_vsnprintf G buf sz fmt ap) \<and>
   single_call (ckalliope_vasprintf G pp fmt ap) (GMP_vasprintf pp fmt ap)
     (gmp_vasprintf G pp fmt ap) \<and>
   single_call (ckalliope_vscanf G fmt ap) (GMP_vscanf fmt ap) (gmp_vscanf G fmt ap) \<and>
   single_call (ckalliope_vfscanf G stream fmt ap) (GMP_vfscanf stream fmt ap)
     (gmp_vfscanf G stream fmt ap) \<and>
   single_call (ckalliope_vsscanf G str fmt ap) (GMP_vsscanf str fmt ap)
     (gmp_vsscanf G str fmt ap) \<and>
   single_call (clinus_mpfr_vprintf M fmt ap) (MPFR_vprintf fmt ap) (mpfr_vprintf M fmt ap) \<and>
   single_call (clinus_mpfr_vfprintf M stream fmt ap) (MPFR_vfprintf stream fmt ap)
     (mpfr_vfprintf M stream fmt ap)"
  unfolding ckalliope_vprintf_def ckalliope_vfprintf_def ckalliope_vsprintf_def
    ckalliope_vsnprintf_def ckalliope_vasprintf_def ckalliope_vscanf_def
    ckalliope_vfscanf_def ckalliope_vsscanf_def clinus_mpfr_vprintf_def
    clinus_mpfr_vfprintf_def
  by (intro conjI single_call_extern)

text \<open>
  Claim C6. For every destination, operand and rounding-mode code (valid for MPFR or
  not), \<^verbatim>\<open>clinus_mpfr_rint_floor\<close>, \<^verbatim>\<open>clinus_mpfr_rint_ceil\<close> and
  \<^verbatim>\<open>clinus_mpfr_rint_trunc\<close> make the one call of the matching MPFR function with the
  code as given, and return its status.
\<close>

theorem rint_single_call:
  "single_call (clinus_mpfr_rint_floor M rop op rnd) (MPFR_rint_floor rop op rnd)
     (mpfr_rint_floor M rop op rnd) \<and>
   single_call (clinus_mpfr_rint_ceil M rop op rnd) (MPFR_rint_ceil rop op rnd)
     (mpfr_rint_ceil M rop op rnd) \<and>
   single_call (clinus_mpfr_rint_trunc M rop op rnd) (MPFR_rint_trunc rop op rnd)
     (mpfr_rint_trunc M rop op rnd)"
  unfolding clinus_mpfr_rint_floor_def clinus_mpfr_rint_ceil_def clinus_mpfr_rint_trunc_def
  by (intro conjI single_call_extern)

text \<open>
  Claim C5. \<^verbatim>\<open>clinus_get_prec_min\<close> and \<^verbatim>\<open>clinus_get_prec_max\<close> leave the state as it
  is, return the same value in any two states, and the minimum is below the maximum.
\<close>

theorem prec_bounds_constant:
  "snd (clinus_get_prec_min s) = s \<and>
   snd (clinus_get_prec_max s) = s \<and>
   fst (clinus_get_prec_min s) = fst (clinus_get_prec_min s') \<and>
   fst (clinus_get_prec_max s) = fst (clinus_get_prec_max s') \<and>
   fst (clinus_get_prec_min s) <s fst (clinus_get_prec_max s')"
  by (simp add: clinus_get_prec_min_def clinus_get_prec_max_def prec_min_lt_max)

section \<open>Redirecting standard input\<close>

text \<open>
  Claim C7. Both helpers return 0 or \<open>-1\<close> and nothing else. The redirection returns 0
  exactly when \<^verbatim>\<open>freopen\<close> gave a stream that is not null and is \<^verbatim>\<open>stdin\<close>; the
  restoration returns 0 exactly when, besides, \<^verbatim>\<open>dup2\<close> gave a result that is not
  negative. Every other outcome is the one value \<open>-1\<close>.
\<close>

theorem redirect_restore_zero_or_minus_one:
  "fst (ckalliope_redirect_stdin_from_file L filepath s) \<in> {0, - 1} \<and>
   fst (ckalliope_restore_stdin L fd s) \<in> {0, - 1} \<and>
   (fst (ckalliope_redirect_stdin_from_file L filepath s) = 0) =
     (case freopen L filepath (Some ''r'') (stdin L (world s)) (world s) of
        (r, w1) \<Rightarrow> r \<noteq> NULL \<and> r = stdin L w1) \<and>
   (fst (ckalliope_restore_stdin L fd s) = 0) =
     (case dup2 L fd STDIN_FILENO (world s) of
        (d, w1) \<Rightarrow>
          (case freopen L None (Some ''r'') (stdin L w1) w1 of
             (r, w2) \<Rightarrow> \<not> d <s 0 \<and> r \<noteq> NULL \<and> r = stdin L w2))"
proof -
  obtain r w1 where f: "freopen L filepath (Some ''r'') (stdin L (world s)) (world s) = (r, w1)"
    by (cases "freopen L filepath (Some ''r'') (stdin L (world s)) (world s)")
  obtain d v1 where d: "dup2 L fd STDIN_FILENO (world s) = (d, v1)"
    by (cases "dup2 L fd STDIN_FILENO (world s)")
  obtain q v2 where g: "freopen L None (Some ''r'') (stdin L v1) v1 = (q, v2)"
    by (cases "freopen L None (Some ''r'') (stdin L v1) v1")
  show ?thesis
    by (simp add: redirect_eq [OF f] restore_eq [OF d g] f d g)
qed

theorem redirect_restore_zero_or_minus_one_witness:
  "fst (ckalliope_redirect_stdin_from_file posix (Some ''in.txt'') s0) = 0 \<and>
   fst (ckalliope_redirect_stdin_from_file posix (Some ''missing.txt'') s0) = - 1 \<and>
   fst (ckalliope_restore_stdin posix 3 s0) = 0 \<and>
   fst (ckalliope_restore_stdin posix 7 s0) = - 1"
  using redirect_restore_zero_or_minus_one [of posix "Some ''in.txt''" s0 3]
    redirect_restore_zero_or_minus_one [of posix "Some ''missing.txt''" s0 7]
  by (auto simp add: posix_simps p_freopen_def p_dup2_def stream_at_def STDIN_FILENO_def
      word_sless_alt s0_def w0_def)

text \<open>
  Claim C2, as stated, fails. On the reference platform, with standard input on the
  terminal, redirecting to a path that names no file returns \<open>-1\<close>, and afterwards
  standard input is bound to nothing: \<^verbatim>\<open>freopen\<close> closed the old stream before it tried
  to open the file.
\<close>

theorem redirect_failure_changes_stdin:
  "fst (ckalliope_redirect_stdin_from_file posix (Some ''missing.txt'') s0) = - 1 \<and>
   stdin_binding (world s0) = Some tty \<and>
   stdin_binding (world (snd (ckalliope_redirect_stdin_from_file posix (Some ''missing.txt'') s0)))
     = None"
  by (simp add: ckalliope_redirect_stdin_from_file_def extern_eq posix_simps p_freopen_def
      stream_at_def stdin_binding_def s0_def w0_def)

text \<open>
  Claim C2, amended. When the redirection fails, because \<^verbatim>\<open>freopen\<close> returned null or a
  stream other than \<^verbatim>\<open>stdin\<close>, it returns \<open>-1\<close> after that single call and undoes
  nothing: the world is the one \<^verbatim>\<open>freopen\<close> left.
\<close>

theorem redirect_failure_no_rollback:
  assumes "freopen L filepath (Some ''r'') (stdin L (world s)) (world s) = (r, w1)"
    and "r = NULL \<or> r \<noteq> stdin L w1"
  shows "ckalliope_redirect_stdin_from_file L filepath s =
           (- 1, \<lparr>world = w1,
                  calls = calls s @ [Freopen filepath (Some ''r'') (stdin L (world s))]\<rparr>)"
  using assms(2) by (simp add: redirect_eq [OF assms(1)])

theorem redirect_failure_no_rollback_witness:
  "fst (freopen posix (Some ''missing.txt'') (Some ''r'') (stdin posix (world s0)) (world s0))
     = NULL \<and>
   ckalliope_redirect_stdin_from_file posix (Some ''missing.txt'') s0 =
     (- 1, \<lparr>world = snd (freopen posix (Some ''missing.txt'') (Some ''r'')
                            (stdin posix (world s0)) (world s0)),
            calls = [Freopen (Some ''missing.txt'') (Some ''r'') 4096]\<rparr>)"
proof -
  have h: "fst (freopen posix (Some ''missing.txt'') (Some ''r'') (stdin posix (world s0))
                 (world s0)) = NULL"
    by (simp add: posix_simps p_freopen_def stream_at_def s0_def w0_def)
  show ?thesis
    using h redirect_failure_no_rollback
      [of posix "Some ''missing.txt''" s0, OF prod.collapse [symmetric]]
    by (simp add: s0_def w0_def posix_simps)
qed

text \<open>
  Claim C3. On the reference platform, for every path that names a readable file: the
  redirection returns 0 whenever \<^verbatim>\<open>stdin\<close> is an open stream; and whenever it returns 0
  it has called \<^verbatim>\<open>freopen(path, "r", stdin)\<close>, \<^verbatim>\<open>clearerr(stdin)\<close> and \<^verbatim>\<open>rewind(stdin)\<close>
  in this order, standard input is bound to that file at offset 0 with the end-of-file
  and error indicators clear, and the next byte read from it is the first byte of the
  file (end of file at once when the file is empty).
\<close>

theorem redirect_rebinds_stdin:
  assumes "files (world s) p = Some data"
  shows "(stream_at (world s) (stdin_var (world s)) \<noteq> None \<longrightarrow>
            fst (ckalliope_redirect_stdin_from_file posix (Some p) s) = 0) \<and>
         (fst (ckalliope_redirect_stdin_from_file posix (Some p) s) = 0 \<longrightarrow>
            (let s' = snd (ckalliope_redirect_stdin_from_file posix (Some p) s); w' = world s'
             in calls s' = calls s @ [Freopen (Some p) (Some ''r'') (stdin_var (world s)),
                                      Clearerr (stdin_var (world s)),
                                      Rewind (stdin_var (world s))] \<and>
                stdin_binding w' = Some \<lparr>of_data = data, of_pos = 0\<rparr> \<and>
                (\<exists>fd. stream_at w' (stdin_var w') =
                         Some \<lparr>fs_fd = fd, fs_eof = False, fs_err = False\<rparr>) \<and>
                fst (p_fgetc (stdin_var w') w') = (case data of [] \<Rightarrow> EOF | b # _ \<Rightarrow> ucast b)))"
proof (cases "stream_at (world s) (stdin_var (world s))")
  case None
  then show ?thesis
    by (simp add: ckalliope_redirect_stdin_from_file_def extern_eq posix_simps p_freopen_def)
next
  case (Some st)
  then have n: "stdin_var (world s) \<noteq> NULL"
    by (auto simp add: stream_at_def split: if_splits)
  from Some n have st: "streams (world s) (stdin_var (world s)) = Some st"
    by (simp add: stream_at_def)
  from assms Some st n show ?thesis
    by (simp add: ckalliope_redirect_stdin_from_file_def extern_eq extern_void_def posix_simps
        p_freopen_def p_clearerr_def p_rewind_def p_fgetc_def stdin_binding_def Let_def
        stream_at_def split: list.splits)
qed

theorem redirect_rebinds_stdin_witness:
  "files (world s0) ''in.txt'' = Some in_txt \<and>
   stream_at (world s0) (stdin_var (world s0)) \<noteq> None \<and>
   fst (ckalliope_redirect_stdin_from_file posix (Some ''in.txt'') s0) = 0 \<and>
   stdin_binding (world (snd (ckalliope_redirect_stdin_from_file posix (Some ''in.txt'') s0)))
     = Some \<lparr>of_data = in_txt, of_pos = 0\<rparr> \<and>
   fst (p_fgetc 4096 (world (snd (ckalliope_redirect_stdin_from_file posix (Some ''in.txt'') s0))))
     = 51"
proof -
  have f: "files (world s0) ''in.txt'' = Some in_txt"
    by (simp add: s0_def w0_def)
  have o: "stream_at (world s0) (stdin_var (world s0)) \<noteq> None"
    by (simp add: s0_def w0_def stream_at_def)
  have v: "stdin_var (world (snd (ckalliope_redirect_stdin_from_file posix (Some ''in.txt'') s0)))
             = 4096"
    by (simp add: ckalliope_redirect_stdin_from_file_def extern_eq extern_void_def posix_simps
        p_freopen_def p_clearerr_def p_rewind_def stream_at_def s0_def w0_def)
  show ?thesis
    using f o v redirect_rebinds_stdin [OF f]
    by (simp add: Let_def in_txt_def EOF_def)
qed

section \<open>Restoring standard input\<close>

text \<open>
  Claim C4. For every saved descriptor, the restoration first calls
  \<^verbatim>\<open>dup2(original_fd, STDIN_FILENO)\<close> and returns \<open>-1\<close> at once when that fails; it then
  calls \<^verbatim>\<open>freopen(NULL, "r", stdin)\<close> and returns \<open>-1\<close> when that gives null; when both
  succeed and the stream is \<^verbatim>\<open>stdin\<close> it calls \<^verbatim>\<open>clearerr(stdin)\<close> last and returns 0.
\<close>

theorem restore_steps_in_order:
  assumes "dup2 L fd STDIN_FILENO (world s) = (d, w1)"
    and "freopen L None (Some ''r'') (stdin L w1) w1 = (r, w2)"
  shows "(d <s 0 \<longrightarrow>
            ckalliope_restore_stdin L fd s =
              (- 1, \<lparr>world = w1, calls = calls s @ [Dup2 fd STDIN_FILENO]\<rparr>)) \<and>
         (\<not> d <s 0 \<and> r = NULL \<longrightarrow>
            ckalliope_restore_stdin L fd s =
              (- 1, \<lparr>world = w2,
                     calls = calls s @ [Dup2 fd STDIN_FILENO,
                                        Freopen None (Some ''r'') (stdin L w1)]\<rparr>)) \<and>
         (\<not> d <s 0 \<and> r \<noteq> NULL \<and> r = stdin L w2 \<longrightarrow>
            ckalliope_restore_stdin L fd s =
              (0, \<lparr>world = clearerr L (stdin L w2) w2,
                   calls = calls s @ [Dup2 fd STDIN_FILENO,
                                      Freopen None (Some ''r'') (stdin L w1),
                                      Clearerr (stdin L w2)]\<rparr>))"
  by (simp add: restore_eq [OF assms])

text \<open>
  The three cases on the reference platform: descriptor 7 is not open; descriptor 3 is
  open but the implementation does not permit reopening a stream without a path;
  descriptor 3 is open and the reopening is permitted.
\<close>

theorem restore_steps_in_order_witness:
  "fst (dup2 posix 7 STDIN_FILENO (world s0)) <s 0 \<and>
   fst (ckalliope_restore_stdin posix 7 s0) = - 1 \<and>
   calls (snd (ckalliope_restore_stdin posix 7 s0)) = [Dup2 7 STDIN_FILENO] \<and>
   (let s1 = \<lparr>world = w0\<lparr>null_reopen := False\<rparr>, calls = []\<rparr>
    in \<not> fst (dup2 posix 3 STDIN_FILENO (world s1)) <s 0 \<and>
       fst (ckalliope_restore_stdin posix 3 s1) = - 1 \<and>
       calls (snd (ckalliope_restore_stdin posix 3 s1)) =
         [Dup2 3 STDIN_FILENO, Freopen None (Some ''r'') 4096]) \<and>
   \<not> fst (dup2 posix 3 STDIN_FILENO (world s0)) <s 0 \<and>
   fst (ckalliope_restore_stdin posix 3 s0) = 0 \<and>
   calls (snd (ckalliope_restore_stdin posix 3 s0)) =
     [Dup2 3 STDIN_FILENO, Freopen None (Some ''r'') 4096, Clearerr 4096]"
proof -
  define s1 where "s1 = \<lparr>world = w0\<lparr>null_reopen := False\<rparr>, calls = []\<rparr>"
  have a: "fst (dup2 posix 7 STDIN_FILENO (world s0)) <s 0"
    by (simp add: posix_simps p_dup2_def STDIN_FILENO_def word_sless_alt s0_def w0_def)
  have b: "\<not> fst (dup2 posix 3 STDIN_FILENO (world s1)) <s 0"
    by (simp add: s1_def posix_simps p_dup2_def STDIN_FILENO_def word_sless_alt w0_def)
  have b': "fst (freopen posix None (Some ''r'')
                   (stdin posix (snd (dup2 posix 3 STDIN_FILENO (world s1))))
                   (snd (dup2 posix 3 STDIN_FILENO (world s1)))) = NULL"
    by (simp add: s1_def posix_simps p_dup2_def p_freopen_def stream_at_def STDIN_FILENO_def
        word_sless_alt w0_def)
  have c: "\<not> fst (dup2 posix 3 STDIN_FILENO (world s0)) <s 0"
    by (simp add: posix_simps p_dup2_def STDIN_FILENO_def word_sless_alt s0_def w0_def)
  have c': "fst (freopen posix None (Some ''r'')
                   (stdin posix (snd (dup2 posix 3 STDIN_FILENO (world s0))))
                   (snd (dup2 posix 3 STDIN_FILENO (world s0)))) = 4096"
    "stdin posix (snd (freopen posix None (Some ''r'')
                   (stdin posix (snd (dup2 posix 3 STDIN_FILENO (world s0))))
                   (snd (dup2 posix 3 STDIN_FILENO (world s0))))) = 4096"
    "stdin posix (snd (dup2 posix 3 STDIN_FILENO (world s0))) = 4096"
    by (simp_all add: posix_simps p_dup2_def p_freopen_def stream_at_def STDIN_FILENO_def
        word_sless_alt s0_def w0_def)
  have d: "stdin posix (snd (dup2 posix 3 STDIN_FILENO (world s1))) = 4096" "calls s0 = []"
    "calls s1 = []"
    by (simp_all add: s1_def posix_simps p_dup2_def STDIN_FILENO_def word_sless_alt w0_def
        s0_def)
  from a b b' c c' d
    restore_steps_in_order [of posix 7 s0, OF prod.collapse [symmetric] prod.collapse [symmetric]]
    restore_steps_in_order [of posix 3 s1, OF prod.collapse [symmetric] prod.collapse [symmetric]]
    restore_steps_in_order [of posix 3 s0, OF prod.collapse [symmetric] prod.collapse [symmetric]]
  show ?thesis
    unfolding s1_def [symmetric] Let_def by simp
qed

text \<open>
  Claim C9. The restoration has a third way to fail: when \<^verbatim>\<open>dup2\<close> succeeded and
  \<^verbatim>\<open>freopen\<close> returned a stream that is not null but is not \<^verbatim>\<open>stdin\<close>, it returns \<open>-1\<close>.
  The check comes after both calls, nothing is undone, and \<^verbatim>\<open>clearerr\<close> is not reached:
  the world is the one \<^verbatim>\<open>freopen\<close> left on top of the duplicated descriptor.
\<close>

theorem restore_stream_mismatch:
  assumes "dup2 L fd STDIN_FILENO (world s) = (d, w1)"
    and "\<not> d <s 0"
    and "freopen L None (Some ''r'') (stdin L w1) w1 = (r, w2)"
    and "r \<noteq> NULL"
    and "r \<noteq> stdin L w2"
  shows "ckalliope_restore_stdin L fd s =
           (- 1, \<lparr>world = w2,
                  calls = calls s @ [Dup2 fd STDIN_FILENO,
                                     Freopen None (Some ''r'') (stdin L w1)]\<rparr>)"
  using assms(2,4,5) by (simp add: restore_eq [OF assms(1,3)])

text \<open>
  On the platform where \<^verbatim>\<open>stdin\<close> is assigned during \<^verbatim>\<open>freopen\<close>, after a redirection to
  \<^verbatim>\<open>in.txt\<close>: the restoration from descriptor 3 returns \<open>-1\<close>, and descriptor 0 denotes
  the terminal again.
\<close>

theorem restore_stream_mismatch_witness:
  "(let s1 = snd (ckalliope_redirect_stdin_from_file posix (Some ''in.txt'') s0)
    in fdtab (world s1) 0 = Some \<lparr>of_data = in_txt, of_pos = 0\<rparr> \<and>
       \<not> fst (dup2 racing 3 STDIN_FILENO (world s1)) <s 0 \<and>
       fst (ckalliope_restore_stdin racing 3 s1) = - 1 \<and>
       calls (snd (ckalliope_restore_stdin racing 3 s1)) =
         calls s1 @ [Dup2 3 STDIN_FILENO, Freopen None (Some ''r'') 4096] \<and>
       fdtab (world (snd (ckalliope_restore_stdin racing 3 s1))) 0 = Some tty)"
proof -
  define s1 where "s1 = snd (ckalliope_redirect_stdin_from_file posix (Some ''in.txt'') s0)"
  have s1: "s1 = \<lparr>world = w0\<lparr>fdtab := (fdtab w0)(0 \<mapsto> \<lparr>of_data = in_txt, of_pos = 0\<rparr>),
                      streams := (streams w0)
                        (4096 \<mapsto> \<lparr>fs_fd = 0, fs_eof = False, fs_err = False\<rparr>)\<rparr>,
                  calls = [Freopen (Some ''in.txt'') (Some ''r'') 4096, Clearerr 4096,
                           Rewind 4096]\<rparr>"
    unfolding s1_def
    by (simp add: ckalliope_redirect_stdin_from_file_def extern_eq extern_void_def posix_simps
        p_freopen_def p_clearerr_def p_rewind_def stream_at_def s0_def w0_def)
  have a: "\<not> fst (dup2 racing 3 STDIN_FILENO (world s1)) <s 0"
    by (simp add: s1 racing_simps p_dup2_def STDIN_FILENO_def word_sless_alt w0_def)
  have b: "fst (freopen racing None (Some ''r'')
                  (stdin racing (snd (dup2 racing 3 STDIN_FILENO (world s1))))
                  (snd (dup2 racing 3 STDIN_FILENO (world s1)))) = 4096"
    by (simp add: s1 racing_simps p_dup2_def p_freopen_def stream_at_def STDIN_FILENO_def
        word_sless_alt w0_def)
  have c: "stdin racing (snd (freopen racing None (Some ''r'')
                  (stdin racing (snd (dup2 racing 3 STDIN_FILENO (world s1))))
                  (snd (dup2 racing 3 STDIN_FILENO (world s1))))) = 12288"
    by (simp add: racing_simps)
  have d: "stdin racing (snd (dup2 racing 3 STDIN_FILENO (world s1))) = 4096"
    by (simp add: s1 racing_simps p_dup2_def STDIN_FILENO_def word_sless_alt w0_def)
  have e: "fdtab (snd (freopen racing None (Some ''r'')
                  (stdin racing (snd (dup2 racing 3 STDIN_FILENO (world s1))))
                  (snd (dup2 racing 3 STDIN_FILENO (world s1))))) 0 = Some tty"
    by (simp add: s1 racing_simps p_dup2_def p_freopen_def stream_at_def STDIN_FILENO_def
        word_sless_alt w0_def tty_def)
  have f: "fdtab (world s1) 0 = Some \<lparr>of_data = in_txt, of_pos = 0\<rparr>"
    by (simp add: s1)
  have m: "ckalliope_restore_stdin racing 3 s1 =
       (- 1, \<lparr>world = snd (freopen racing None (Some ''r'')
                  (stdin racing (snd (dup2 racing 3 STDIN_FILENO (world s1))))
                  (snd (dup2 racing 3 STDIN_FILENO (world s1)))),
              calls = calls s1 @ [Dup2 3 STDIN_FILENO,
                 Freopen None (Some ''r'')
                   (stdin racing (snd (dup2 racing 3 STDIN_FILENO (world s1))))]\<rparr>)"
    using b c
    by (intro restore_stream_mismatch [OF prod.collapse [symmetric] a prod.collapse [symmetric]])
      simp_all
  show ?thesis
    unfolding s1_def [symmetric] Let_def using a f e by (simp add: m d)
qed

text \<open>
  Claim C10. The restoration is not tied to a redirection. For every C library whose
  \<^verbatim>\<open>dup2\<close> is the one of the reference platform, whatever its \<^verbatim>\<open>freopen\<close> and
  \<^verbatim>\<open>clearerr\<close> do, and in every state, whether reached through a redirection that
  succeeded, one that failed, or none:
  \<^item> a descriptor that is negative or not open makes \<^verbatim>\<open>dup2\<close> fail, and the
    restoration returns \<open>-1\<close> after that one call with the world as it was;
  \<^item> a descriptor that is open makes descriptor 0 denote what it denotes, and the
    restoration goes on to \<^verbatim>\<open>freopen(NULL, "r", stdin)\<close>: it returns 0 after
    \<^verbatim>\<open>clearerr(stdin)\<close> when that call gives the stream \<^verbatim>\<open>stdin\<close>, and \<open>-1\<close> otherwise;
  \<^item> two states that differ only in what descriptor 0 denotes, as the states before and
    after a redirection do, give the same result, the same calls and the same world
    when restored from one open descriptor other than 0.
\<close>

theorem restore_needs_no_redirect:
  assumes "dup2 L = p_dup2"
  shows
  "(fd <s 0 \<or> fdtab (world s) fd = None \<longrightarrow>
      ckalliope_restore_stdin L fd s =
        (- 1, \<lparr>world = world s, calls = calls s @ [Dup2 fd STDIN_FILENO]\<rparr>)) \<and>
   (\<not> fd <s 0 \<and> fdtab (world s) fd = Some f \<longrightarrow>
      (let w1 = (world s)\<lparr>fdtab := (fdtab (world s))(STDIN_FILENO := Some f)\<rparr>;
           r = fst (freopen L None (Some ''r'') (stdin L w1) w1);
           w2 = snd (freopen L None (Some ''r'') (stdin L w1) w1);
           cs = calls s @ [Dup2 fd STDIN_FILENO, Freopen None (Some ''r'') (stdin L w1)]
       in ckalliope_restore_stdin L fd s =
            (if r \<noteq> NULL \<and> r = stdin L w2
             then (0, \<lparr>world = clearerr L (stdin L w2) w2,
                       calls = cs @ [Clearerr (stdin L w2)]\<rparr>)
             else (- 1, \<lparr>world = w2, calls = cs\<rparr>)))) \<and>
   (\<not> fd <s 0 \<and> fd \<noteq> STDIN_FILENO \<and> fdtab (world s) fd \<noteq> None \<and>
    world t = (world s)\<lparr>fdtab := (fdtab (world s))(STDIN_FILENO := x)\<rparr> \<longrightarrow>
      fst (ckalliope_restore_stdin L fd t) = fst (ckalliope_restore_stdin L fd s) \<and>
      world (snd (ckalliope_restore_stdin L fd t)) =
        world (snd (ckalliope_restore_stdin L fd s)) \<and>
      drop (length (calls t)) (calls (snd (ckalliope_restore_stdin L fd t))) =
        drop (length (calls s)) (calls (snd (ckalliope_restore_stdin L fd s))))"
proof (intro conjI impI)
  assume "fd <s 0 \<or> fdtab (world s) fd = None"
  then show "ckalliope_restore_stdin L fd s =
        (- 1, \<lparr>world = world s, calls = calls s @ [Dup2 fd STDIN_FILENO]\<rparr>)"
    by (auto simp add: ckalliope_restore_stdin_def extern_eq assms p_dup2_def)
next
  assume a: "\<not> fd <s 0 \<and> fdtab (world s) fd = Some f"
  define w1 where "w1 = (world s)\<lparr>fdtab := (fdtab (world s))(STDIN_FILENO := Some f)\<rparr>"
  have z: "\<not> STDIN_FILENO <s 0"
    by (simp add: STDIN_FILENO_def)
  have d: "dup2 L fd STDIN_FILENO (world s) = (STDIN_FILENO, w1)"
  proof (cases "fd = STDIN_FILENO")
    case True
    with a have "(fdtab (world s))(STDIN_FILENO := Some f) = fdtab (world s)"
      by (simp add: fun_upd_idem)
    then have "w1 = world s"
      by (simp add: w1_def)
    with a True z show ?thesis
      by (simp add: assms p_dup2_def)
  next
    case False
    with a z show ?thesis
      by (simp add: assms p_dup2_def w1_def)
  qed
  have g: "freopen L None (Some ''r'') (stdin L w1) w1 =
             (fst (freopen L None (Some ''r'') (stdin L w1) w1),
              snd (freopen L None (Some ''r'') (stdin L w1) w1))"
    by simp
  show "let w1 = (world s)\<lparr>fdtab := (fdtab (world s))(STDIN_FILENO := Some f)\<rparr>;
           r = fst (freopen L None (Some ''r'') (stdin L w1) w1);
           w2 = snd (freopen L None (Some ''r'') (stdin L w1) w1);
           cs = calls s @ [Dup2 fd STDIN_FILENO, Freopen None (Some ''r'') (stdin L w1)]
       in ckalliope_restore_stdin L fd s =
            (if r \<noteq> NULL \<and> r = stdin L w2
             then (0, \<lparr>world = clearerr L (stdin L w2) w2,
                       calls = cs @ [Clearerr (stdin L w2)]\<rparr>)
             else (- 1, \<lparr>world = w2, calls = cs\<rparr>))"
    unfolding w1_def [symmetric] Let_def
    using z by (simp add: restore_eq [OF d g])
next
  assume a: "\<not> fd <s 0 \<and> fd \<noteq> STDIN_FILENO \<and> fdtab (world s) fd \<noteq> None \<and>
    world t = (world s)\<lparr>fdtab := (fdtab (world s))(STDIN_FILENO := x)\<rparr>"
  define v where "v = (world s)\<lparr>fdtab := (fdtab (world s))(STDIN_FILENO := fdtab (world s) fd)\<rparr>"
  from a have ds: "dup2 L fd STDIN_FILENO (world s) = (STDIN_FILENO, v)"
    by (simp add: assms p_dup2_def v_def STDIN_FILENO_def)
  from a have dt: "dup2 L fd STDIN_FILENO (world t) = (STDIN_FILENO, v)"
    by (simp add: assms p_dup2_def v_def STDIN_FILENO_def)
  have g: "freopen L None (Some ''r'') (stdin L v) v =
             (fst (freopen L None (Some ''r'') (stdin L v) v),
              snd (freopen L None (Some ''r'') (stdin L v) v))"
    by simp
  show "fst (ckalliope_restore_stdin L fd t) = fst (ckalliope_restore_stdin L fd s)"
    by (simp add: restore_eq [OF ds g] restore_eq [OF dt g])
  show "world (snd (ckalliope_restore_stdin L fd t)) =
        world (snd (ckalliope_restore_stdin L fd s))"
    by (simp add: restore_eq [OF ds g] restore_eq [OF dt g])
  show "drop (length (calls t)) (calls (snd (ckalliope_restore_stdin L fd t))) =
        drop (length (calls s)) (calls (snd (ckalliope_restore_stdin L fd s)))"
    by (simp add: restore_eq [OF ds g] restore_eq [OF dt g])
qed

text \<open>
  On the reference platform. Descriptor 7 is not open. Descriptor 3 is open in the
  starting state, after a redirection to \<^verbatim>\<open>in.txt\<close> and after a failed redirection to
  \<^verbatim>\<open>missing.txt\<close>: each time the restoration from it duplicates and then reopens. Where
  the end-of-file indicator was clear at the start, the state after the redirection
  differs from the one before only at descriptor 0, and the restoration ends in the same
  world from both.
\<close>

theorem restore_needs_no_redirect_witness:
  "dup2 posix = p_dup2 \<and>
   fdtab (world s0) 7 = None \<and>
   ckalliope_restore_stdin posix 7 s0 = (- 1, \<lparr>world = w0, calls = [Dup2 7 STDIN_FILENO]\<rparr>) \<and>
   fdtab (world s0) 3 = Some tty \<and>
   fst (ckalliope_restore_stdin posix 3 s0) = 0 \<and>
   calls (snd (ckalliope_restore_stdin posix 3 s0)) =
     [Dup2 3 STDIN_FILENO, Freopen None (Some ''r'') 4096, Clearerr 4096] \<and>
   (let s1 = snd (ckalliope_redirect_stdin_from_file posix (Some ''in.txt'') s0)
    in fdtab (world s1) 3 = Some tty \<and>
       stdin_binding (world s1) = Some \<lparr>of_data = in_txt, of_pos = 0\<rparr> \<and>
       fst (ckalliope_restore_stdin posix 3 s1) = 0 \<and>
       calls (snd (ckalliope_restore_stdin posix 3 s1)) =
         calls s1 @ [Dup2 3 STDIN_FILENO, Freopen None (Some ''r'') 4096, Clearerr 4096] \<and>
       stdin_binding (world (snd (ckalliope_restore_stdin posix 3 s1))) = Some tty) \<and>
   (let s2 = snd (ckalliope_redirect_stdin_from_file posix (Some ''missing.txt'') s0)
    in fdtab (world s2) 3 = Some tty \<and>
       take 2 (drop (length (calls s2)) (calls (snd (ckalliope_restore_stdin posix 3 s2)))) =
         [Dup2 3 STDIN_FILENO, Freopen None (Some ''r'') 4096]) \<and>
   (let c0 = \<lparr>world = w0\<lparr>streams :=
                 Map.empty(4096 \<mapsto> \<lparr>fs_fd = 0, fs_eof = False, fs_err = False\<rparr>)\<rparr>,
               calls = []\<rparr>;
        c1 = snd (ckalliope_redirect_stdin_from_file posix (Some ''in.txt'') c0)
    in world c1 = (world c0)
         \<lparr>fdtab := (fdtab (world c0))(STDIN_FILENO \<mapsto> \<lparr>of_data = in_txt, of_pos = 0\<rparr>)\<rparr> \<and>
       fst (ckalliope_restore_stdin posix 3 c1) = fst (ckalliope_restore_stdin posix 3 c0) \<and>
       world (snd (ckalliope_restore_stdin posix 3 c1)) =
         world (snd (ckalliope_restore_stdin posix 3 c0)))"
proof -
  define st1 where "st1 = \<lparr>fs_fd = 0, fs_eof = False, fs_err = False\<rparr>"
  define s1 where "s1 = snd (ckalliope_redirect_stdin_from_file posix (Some ''in.txt'') s0)"
  define s2 where "s2 = snd (ckalliope_redirect_stdin_from_file posix (Some ''missing.txt'') s0)"
  define c0 where "c0 = \<lparr>world = w0\<lparr>streams := Map.empty(4096 \<mapsto> st1)\<rparr>, calls = []\<rparr>"
  define c1 where "c1 = snd (ckalliope_redirect_stdin_from_file posix (Some ''in.txt'') c0)"
  have p: "dup2 posix = p_dup2"
    by (simp add: posix_simps)
  have s1: "s1 = \<lparr>world = w0\<lparr>fdtab := (fdtab w0)(0 \<mapsto> \<lparr>of_data = in_txt, of_pos = 0\<rparr>),
                      streams := (streams w0)(4096 \<mapsto> st1)\<rparr>,
                  calls = [Freopen (Some ''in.txt'') (Some ''r'') 4096, Clearerr 4096,
                           Rewind 4096]\<rparr>"
    unfolding s1_def st1_def
    by (simp add: ckalliope_redirect_stdin_from_file_def extern_eq extern_void_def posix_simps
        p_freopen_def p_clearerr_def p_rewind_def stream_at_def s0_def w0_def)
  have s2: "s2 = \<lparr>world = w0\<lparr>fdtab := (fdtab w0)(0 := None),
                      streams := (streams w0)(4096 := None)\<rparr>,
                  calls = [Freopen (Some ''missing.txt'') (Some ''r'') 4096]\<rparr>"
    unfolding s2_def
    by (simp add: ckalliope_redirect_stdin_from_file_def extern_eq posix_simps p_freopen_def
        stream_at_def s0_def w0_def)
  have c1: "world c1 = (world c0)
              \<lparr>fdtab := (fdtab (world c0))(STDIN_FILENO \<mapsto> \<lparr>of_data = in_txt, of_pos = 0\<rparr>)\<rparr>"
    unfolding c1_def c0_def st1_def
    by (simp add: ckalliope_redirect_stdin_from_file_def extern_eq extern_void_def posix_simps
        p_freopen_def p_clearerr_def p_rewind_def stream_at_def w0_def STDIN_FILENO_def)
  have a7: "fdtab (world s0) 7 = None"
    by (simp add: s0_def w0_def)
  have a3: "\<not> (3 :: cint) <s 0" "(3 :: cint) \<noteq> STDIN_FILENO"
    by (simp_all add: word_sless_alt STDIN_FILENO_def)
  have f0: "fdtab (world s0) 3 = Some tty"
    by (simp add: s0_def w0_def)
  have f1: "fdtab (world s1) 3 = Some tty"
    by (simp add: s1 w0_def)
  have f2: "fdtab (world s2) 3 = Some tty"
    by (simp add: s2 w0_def)
  have fc: "fdtab (world c0) 3 \<noteq> None"
    by (simp add: c0_def w0_def)
  have r7: "ckalliope_restore_stdin posix 7 s0 =
              (- 1, \<lparr>world = w0, calls = [Dup2 7 STDIN_FILENO]\<rparr>)"
    using restore_needs_no_redirect [OF p, where fd = 7 and s = s0] a7
    by (simp add: s0_def)
  have r0: "ckalliope_restore_stdin posix 3 s0 =
              (0, \<lparr>world = w0\<lparr>fdtab := (fdtab w0)(0 \<mapsto> tty), streams := (streams w0)(4096 \<mapsto> st1)\<rparr>,
                   calls = [Dup2 3 STDIN_FILENO, Freopen None (Some ''r'') 4096,
                            Clearerr 4096]\<rparr>)"
    using restore_needs_no_redirect [OF p, where fd = 3 and s = s0 and f = tty] a3 f0
    by (simp add: Let_def posix_simps p_freopen_def p_clearerr_def stream_at_def STDIN_FILENO_def
        s0_def w0_def st1_def tty_def)
  have r1: "ckalliope_restore_stdin posix 3 s1 =
              (0, \<lparr>world = w0\<lparr>fdtab := (fdtab w0)(0 \<mapsto> tty), streams := (streams w0)(4096 \<mapsto> st1)\<rparr>,
                   calls = calls s1 @ [Dup2 3 STDIN_FILENO, Freopen None (Some ''r'') 4096,
                                       Clearerr 4096]\<rparr>)"
    using restore_needs_no_redirect [OF p, where fd = 3 and s = s1 and f = tty] a3 f1
    by (simp add: Let_def posix_simps p_freopen_def p_clearerr_def stream_at_def STDIN_FILENO_def
        s1 w0_def st1_def tty_def)
  have r2: "take 2 (drop (length (calls s2)) (calls (snd (ckalliope_restore_stdin posix 3 s2)))) =
              [Dup2 3 STDIN_FILENO, Freopen None (Some ''r'') 4096]"
    using restore_needs_no_redirect [OF p, where fd = 3 and s = s2 and f = tty] a3 f2
    by (simp add: Let_def posix_simps s2 w0_def)
  have rc: "fst (ckalliope_restore_stdin posix 3 c1) = fst (ckalliope_restore_stdin posix 3 c0) \<and>
            world (snd (ckalliope_restore_stdin posix 3 c1)) =
              world (snd (ckalliope_restore_stdin posix 3 c0))"
    using restore_needs_no_redirect
      [OF p, where fd = 3 and s = c0 and t = c1
         and x = "Some \<lparr>of_data = in_txt, of_pos = 0\<rparr>"] a3 fc c1
    by blast
  have b1: "stdin_binding (world s1) = Some \<lparr>of_data = in_txt, of_pos = 0\<rparr>"
    by (simp add: s1 w0_def st1_def stdin_binding_def stream_at_def)
  have b2: "stdin_binding (world (snd (ckalliope_restore_stdin posix 3 s1))) = Some tty"
    unfolding r1 by (simp add: w0_def st1_def stdin_binding_def stream_at_def)
  show ?thesis
    unfolding s1_def [symmetric] s2_def [symmetric] st1_def [symmetric] c0_def [symmetric]
      Let_def c1_def [symmetric]
    using p a7 f0 f1 f2 b1 b2 r2 rc c1 by (simp add: r7 r0 r1)
qed

text \<open>
  Claim C8. Whenever the C library's \<^verbatim>\<open>freopen\<close>, \<^verbatim>\<open>clearerr\<close> and \<^verbatim>\<open>rewind\<close> on the
  stream \<^verbatim>\<open>stdin\<close> and its \<^verbatim>\<open>dup2\<close> onto \<^verbatim>\<open>STDIN_FILENO\<close> leave the state of the output
  streams alone, so do the redirection and the restoration, whether they succeed or
  fail; and every call either of them makes is one of those four: none flushes or
  writes.
\<close>

theorem helpers_touch_input_only:
  assumes "output_untouched L out"
  shows "out (world (snd (ckalliope_redirect_stdin_from_file L filepath s))) = out (world s) \<and>
         out (world (snd (ckalliope_restore_stdin L fd s))) = out (world s) \<and>
         list_all input_side
           (drop (length (calls s))
              (calls (snd (ckalliope_redirect_stdin_from_file L filepath s)))) \<and>
         list_all input_side
           (drop (length (calls s)) (calls (snd (ckalliope_restore_stdin L fd s))))"
proof -
  obtain r w1 where f: "freopen L filepath (Some ''r'') (stdin L (world s)) (world s) = (r, w1)"
    by (cases "freopen L filepath (Some ''r'') (stdin L (world s)) (world s)")
  obtain d v1 where d: "dup2 L fd STDIN_FILENO (world s) = (d, v1)"
    by (cases "dup2 L fd STDIN_FILENO (world s)")
  obtain q v2 where g: "freopen L None (Some ''r'') (stdin L v1) v1 = (q, v2)"
    by (cases "freopen L None (Some ''r'') (stdin L v1) v1")
  have w1: "out w1 = out (world s)"
    using assms f unfolding output_untouched_def by (metis snd_conv)
  have v1: "out v1 = out (world s)"
    using assms d unfolding output_untouched_def by (metis snd_conv)
  have v2: "out v2 = out v1"
    using assms g unfolding output_untouched_def by (metis snd_conv)
  have c: "\<And>w. out (clearerr L (stdin L w) w) = out w"
    and rw: "\<And>w. out (rewind L (stdin L w) w) = out w"
    using assms unfolding output_untouched_def by simp_all
  show ?thesis
    by (simp add: redirect_eq [OF f] restore_eq [OF d g] w1 v1 v2 c rw)
qed

text \<open>
  On the reference platform the two bytes buffered in the output stream at 8192 are
  still there after a redirection that succeeds, one that fails, and a restoration.
\<close>

theorem helpers_touch_input_only_witness:
  "output_untouched posix pending_out \<and>
   pending_out (world s0) 8192 = [111, 107] \<and>
   pending_out (world (snd (ckalliope_redirect_stdin_from_file posix (Some ''in.txt'') s0))) 8192
     = [111, 107] \<and>
   pending_out (world (snd (ckalliope_redirect_stdin_from_file posix (Some ''missing.txt'') s0)))
     8192 = [111, 107] \<and>
   pending_out (world (snd (ckalliope_restore_stdin posix 3 s0))) 8192 = [111, 107] \<and>
   list_all input_side (calls (snd (ckalliope_restore_stdin posix 3 s0)))"
proof -
  have p: "pending_out (world s0) 8192 = [111, 107]" "calls s0 = []"
    by (simp_all add: s0_def w0_def)
  from p output_untouched_posix
    helpers_touch_input_only [OF output_untouched_posix, of "Some ''in.txt''" s0 3]
    helpers_touch_input_only [OF output_untouched_posix, of "Some ''missing.txt''" s0 3]
  show ?thesis
    by simp
qed

end
